theory Spec2Isabelle
  imports Main "HOL-Library.Sublist"
begin

section \<open>JavaScript values used by the runtime\<close>

text \<open>
  The development embeds the methods of \<open>AgentRuntime\<close> (the agent runtime class) that
  the specification makes claims about. Strings are lists of characters, arrays are
  lists, JavaScript numbers that hold counts, indices and millisecond timestamps are
  integers. Every \<open>throw\<close> is a value of the type \<open>error\<close>.
\<close>

datatype error =
    InvalidModel          \<comment> \<open>\<open>tiktoken.encoding_for_model\<close> rejects the model name\<close>
  | CompletionFailed      \<comment> \<open>"Failed to complete message after 5 tries, ..."\<close>
  | ApiError              \<comment> \<open>a response whose \<open>ok\<close> flag is false\<close>
  | NoContent             \<comment> \<open>"No content in response"\<close>
  | NetworkError          \<comment> \<open>\<open>fetch\<close> or \<open>response.json()\<close> rejects\<close>
  | TypeError             \<comment> \<open>a property read on \<open>undefined\<close>\<close>

text \<open>
  \<open>Array.prototype.slice(start, end)\<close>, \<open>String.prototype.slice\<close> and the typed-array
  \<open>slice\<close> share one index rule: a negative index counts from the end and is clamped
  at 0, a positive one is clamped at the length, and an empty result is returned when
  the start is not before the end.
\<close>

definition js_index :: "nat \<Rightarrow> int \<Rightarrow> nat" where
  "js_index len k = (if k < 0 then nat (max (int len + k) 0) else min (nat k) len)"

definition js_slice :: "'a list \<Rightarrow> int \<Rightarrow> int \<Rightarrow> 'a list" where
  "js_slice xs start end =
     (let from = js_index (length xs) start; to = js_index (length xs) end
      in take (to - from) (drop from xs))"

definition js_slice_from :: "'a list \<Rightarrow> int \<Rightarrow> 'a list" where
  "js_slice_from xs start = drop (js_index (length xs) start) xs"

section \<open>Tokenizer adapter\<close>

text \<open>
  The tokenizer is the external \<open>tiktoken\<close> library. An encoding is the pair of its
  \<open>encode\<close> method and of \<open>textDecoder.decode(encoding.decode(tokens))\<close>, the only way
  the runtime decodes. The runtime never inspects a token, so the token type is a
  parameter. \<open>encoding_for_model\<close> is partial: it throws on a model it does not know.
\<close>

record 'tok encoding =
  encode :: "string \<Rightarrow> 'tok list"
  decode :: "'tok list \<Rightarrow> string"

type_synonym 'tok tiktoken = "string \<Rightarrow> 'tok encoding option"

text \<open>
  \<open>trimTokens(context, maxTokens, model)\<close>:
  \<^verbatim>\<open>
    let tokens = encoding.encode(context);
    if (tokens.length > maxTokens) {
      tokens = tokens.reverse().slice(maxTokens).reverse();
      context = textDecoder.decode(encoding.decode(tokens));
    }
    return context;
  \<close>
\<close>

definition trimTokens :: "'tok tiktoken \<Rightarrow> string \<Rightarrow> int \<Rightarrow> string \<Rightarrow> error + string" where
  "trimTokens encoding_for_model context maxTokens model =
     (case encoding_for_model model of
        None \<Rightarrow> Inl InvalidModel
      | Some encoding \<Rightarrow>
          (let tokens = encode encoding context
           in if int (length tokens) > maxTokens
              then Inr (decode encoding (rev (js_slice_from (rev tokens) maxTokens)))
              else Inr context))"

text \<open>
  A concrete lossless encoding for evaluating the runtime on explicit inputs: a token
  is the piece of text it stands for, a new token starts at every space that follows
  a non-empty piece (the space belongs to the word after it, as in the byte-pair
  encodings of the GPT models), and decoding concatenates.
\<close>

fun word_tokens :: "string \<Rightarrow> string \<Rightarrow> string list" where
  "word_tokens cur [] = (if cur = [] then [] else [cur])"
| "word_tokens cur (c # cs) =
     (if c = CHR '' '' \<and> cur \<noteq> [] then cur # word_tokens [c] cs
      else word_tokens (cur @ [c]) cs)"

definition word_encoding :: "string encoding" where
  "word_encoding = \<lparr> encode = word_tokens [], decode = concat \<rparr>"

definition word_tiktoken :: "string tiktoken" where
  "word_tiktoken model = (if model = ''gpt-4o-mini'' then Some word_encoding else None)"

text \<open>
  \<open>splitChunks(content, chunkSize, bleed, model)\<close>:
  \<^verbatim>\<open>
    for (let i = 0; i < tokens.length; i += chunkSize) {
      const chunk = tokens.slice(i, i + chunkSize);
      const decodedChunk = textDecoder.decode(encoding.decode(chunk));
      const startBleed = i > 0 ? content.slice(i - bleed, i) : "";
      const endBleed = i + chunkSize < tokens.length
          ? content.slice(i + chunkSize, i + chunkSize + bleed) : "";
      chunks.push(startBleed + decodedChunk + endBleed);
    }
    return chunks;
  \<close>
  The index \<open>i\<close> counts tokens, and the same \<open>i\<close> indexes \<open>content\<close>, a string. Nothing
  bounds \<open>chunkSize\<close> from below, so the loop need not end: the result \<open>None\<close> stands for
  a call that does not return.
\<close>

partial_function (option) splitChunks_loop ::
  "'tok encoding \<Rightarrow> string \<Rightarrow> 'tok list \<Rightarrow> int \<Rightarrow> int \<Rightarrow> int \<Rightarrow> string list
     \<Rightarrow> string list option" where
  "splitChunks_loop encoding content tokens chunkSize bleed i chunks =
     (if i < int (length tokens) then
        (let chunk = js_slice tokens i (i + chunkSize);
             decodedChunk = decode encoding chunk;
             startBleed = (if i > 0 then js_slice content (i - bleed) i else []);
             endBleed = (if i + chunkSize < int (length tokens)
                         then js_slice content (i + chunkSize) (i + chunkSize + bleed)
                         else [])
         in splitChunks_loop encoding content tokens chunkSize bleed (i + chunkSize)
              (chunks @ [startBleed @ decodedChunk @ endBleed]))
      else Some chunks)"

definition splitChunks ::
  "'tok tiktoken \<Rightarrow> string \<Rightarrow> int \<Rightarrow> int \<Rightarrow> string \<Rightarrow> (error + string list) option" where
  "splitChunks encoding_for_model content chunkSize bleed model =
     (case encoding_for_model model of
        None \<Rightarrow> Some (Inl InvalidModel)
      | Some encoding \<Rightarrow>
          map_option Inr
            (splitChunks_loop encoding content (encode encoding content) chunkSize bleed 0 []))"

section \<open>Completion client\<close>

text \<open>
  One pass through the body of the \<open>try\<close> in \<open>completion\<close>. The remote endpoint is a
  parameter: what the \<open>n\<close>-th call of \<open>fetch\<close> does. \<open>fetch\<close> may reject; the response
  carries its \<open>ok\<close> flag and a body, whose \<open>json()\<close> may reject and whose
  \<open>choices?.[0]?.message?.content\<close> may be missing. The embedding endpoint answers in
  the same shape, with a vector for content.
  \<^verbatim>\<open>
    const response = await fetch(url, requestOptions);
    if (!response.ok) throw new Error(`DeepInfra API Error: ...`);
    const body = await response.json();
    const content = body.choices?.[0]?.message?.content;
    if (!content) throw new Error("No content in response");
    return content;
  \<close>
\<close>

datatype 'c http_body = BadJson | Body "'c option"

datatype 'c fetch_result = FetchRejects | Response bool "'c http_body"

fun attempt :: "string fetch_result \<Rightarrow> error + string" where
  "attempt FetchRejects = Inl NetworkError"
| "attempt (Response ok body) =
     (if \<not> ok then Inl ApiError
      else (case body of
              BadJson \<Rightarrow> Inl NetworkError
            | Body None \<Rightarrow> Inl NoContent
            | Body (Some content) \<Rightarrow> if content = [] then Inl NoContent else Inr content))"

text \<open>
  The retry loop of \<open>completion\<close>, with what an observer sees of it: the value returned or
  the error thrown, the number of requests sent, and the delays passed to \<open>setTimeout\<close>,
  in milliseconds and in order.
  \<^verbatim>\<open>
    let retryLength = 1000; // exponential backoff
    for (let triesLeft = 5; triesLeft > 0; triesLeft--) {
      try { ... return content; }
      catch (error) {
        retryLength *= 2;
        await new Promise(resolve => setTimeout(resolve, retryLength));
      }
    }
    throw new Error("Failed to complete message after 5 tries, ...");
  \<close>
\<close>

record completion_run =
  outcome :: "error + string"
  requests :: nat
  waits :: "int list"

fun completion_loop ::
  "(nat \<Rightarrow> string fetch_result) \<Rightarrow> nat \<Rightarrow> int \<Rightarrow> nat \<Rightarrow> int list \<Rightarrow> completion_run" where
  "completion_loop fetch 0 retryLength sent delays =
     \<lparr> outcome = Inl CompletionFailed, requests = sent, waits = delays \<rparr>"
| "completion_loop fetch (Suc triesLeft) retryLength sent delays =
     (case attempt (fetch sent) of
        Inr content \<Rightarrow> \<lparr> outcome = Inr content, requests = Suc sent, waits = delays \<rparr>
      | Inl err \<Rightarrow>
          completion_loop fetch triesLeft (retryLength * 2) (Suc sent)
            (delays @ [retryLength * 2]))"

definition completion :: "(nat \<Rightarrow> string fetch_result) \<Rightarrow> completion_run" where
  "completion fetch = completion_loop fetch 5 1000 0 []"

text \<open>
  Two endpoints for evaluating \<open>completion\<close> on explicit inputs: one fails in each of
  the five ways in turn, the other fails twice and then answers.
\<close>

definition failing_endpoint :: "nat \<Rightarrow> string fetch_result" where
  "failing_endpoint n =
     (if n = 0 then FetchRejects
      else if n = 1 then Response False (Body (Some ''busy''))
      else if n = 2 then Response True BadJson
      else if n = 3 then Response True (Body None)
      else Response True (Body (Some [])))"

definition recovering_endpoint :: "nat \<Rightarrow> string fetch_result" where
  "recovering_endpoint n =
     (if n = 0 then Response False (Body (Some ''busy''))
      else if n = 1 then Response True (Body (Some []))
      else Response True (Body (Some ''ok'')))"

section \<open>Capability dispatcher\<close>






text \<open>
  An action or an evaluator, as registered: its name, its similes, its \<open>validate\<close>
  predicate on the message and the state, and its handler, which may be absent. A
  handler is opaque; what the model records of it is that it was called.
\<close>

record ('m, 's, 'h) capability =
  name :: string
  similes :: "string list"
  validate :: "'m \<Rightarrow> 's \<Rightarrow> bool"
  handler :: "'h option"



text \<open>
  \<open>evaluate(message, state)\<close>, given \<open>this.evaluators\<close>. The completion and the parse of
  its answer (\<open>parseJsonArrayFromText\<close>, which gives \<open>null\<close> on text that holds no array)
  are one parameter, a function of the evaluators put in the prompt. The run records
  what was offered to the model (\<open>None\<close> when no completion was requested), the value
  returned and the evaluators whose handler was called, in order.
  \<^verbatim>\<open>
    const evaluatorPromises = this.evaluators.map(async (evaluator) => {
      if (!evaluator.handler) return null;
      const result = await evaluator.validate(this, message, state);
      if (result) return evaluator;
      return null;
    });
    const evaluatorsData = (await Promise.all(evaluatorPromises)).filter(Boolean);
    if (evaluatorsData.length === 0) return [];
    ... context from formatEvaluators(evaluatorsData), formatEvaluatorNames(evaluatorsData)
    const result = await this.completion({ context, ... });
    const parsedResult = parseJsonArrayFromText(result);
    this.evaluators
      .filter((evaluator) => parsedResult?.includes(evaluator.name))
      .forEach((evaluator) => {
        if (!evaluator?.handler) return;
        evaluator.handler(this, message);
      });
    return parsedResult;
  \<close>
\<close>

record ('m, 's, 'h) evaluation =
  offered :: "('m, 's, 'h) capability list option"
  returned :: "error + string list option"
  executed :: "('m, 's, 'h) capability list"

definition evaluate ::
  "('m, 's, 'h) capability list
     \<Rightarrow> (('m, 's, 'h) capability list \<Rightarrow> error + string list option)
     \<Rightarrow> 'm \<Rightarrow> 's \<Rightarrow> ('m, 's, 'h) evaluation" where
  "evaluate evaluators completion_parsed message state =
     (let evaluatorsData =
            filter (\<lambda>evaluator. handler evaluator \<noteq> None \<and> validate evaluator message state)
              evaluators
      in if evaluatorsData = []
         then \<lparr> offered = None, returned = Inr (Some []), executed = [] \<rparr>
         else (case completion_parsed evaluatorsData of
                 Inl err \<Rightarrow> \<lparr> offered = Some evaluatorsData, returned = Inl err, executed = [] \<rparr>
               | Inr parsedResult \<Rightarrow>
                   \<lparr> offered = Some evaluatorsData, returned = Inr parsedResult,
                     executed =
                       filter (\<lambda>evaluator. handler evaluator \<noteq> None)
                         (filter (\<lambda>evaluator. case parsedResult of
                                                 None \<Rightarrow> False
                                               | Some names \<Rightarrow> name evaluator \<in> set names)
                            evaluators) \<rparr>))"




definition fact_evaluator :: "(unit, unit, nat) capability" where
  "fact_evaluator =
     \<lparr> name = ''GET_FACTS'', similes = [], validate = (\<lambda>m s. True), handler = Some 4 \<rparr>"

definition goal_evaluator :: "(unit, unit, nat) capability" where
  "goal_evaluator =
     \<lparr> name = ''UPDATE_GOAL'', similes = [], validate = (\<lambda>m s. False), handler = Some 5 \<rparr>"

section \<open>Embedding with the cache lookup\<close>

text \<open>
  \<open>retrieveCachedEmbedding(input)\<close> asks \<open>messageManager.getCachedEmbeddings(input)\<close>, a
  method of the memory manager that these sources do not hold; it is a parameter, the
  list of the \<open>embedding\<close> fields of the rows it returns for an input.
  \<^verbatim>\<open>
    const similaritySearchResult = await this.messageManager.getCachedEmbeddings(input);
    if (similaritySearchResult.length > 0) return similaritySearchResult[0].embedding;
    return null;
  \<close>
\<close>

definition retrieveCachedEmbedding :: "(string \<Rightarrow> 'v option list) \<Rightarrow> string \<Rightarrow> 'v option" where
  "retrieveCachedEmbedding getCachedEmbeddings input =
     (case getCachedEmbeddings input of
        [] \<Rightarrow> None
      | first # _ \<Rightarrow> first)"

text \<open>
  \<open>embed(input)\<close>. The environment is whether the setting \<open>OPENAI_API_KEY\<close> is present,
  the local service used without it, and the cache lookup. The number of requests sent
  to the remote embedding endpoint is threaded through; the \<open>n\<close>-th request for an
  input is answered by \<open>fetch n input\<close>. The content of a parsed body is \<open>data?.data\<close>,
  absent or the list of the \<open>embedding\<close> fields of its rows: \<open>data?.data?.[0].embedding\<close>
  is \<open>undefined\<close> when \<open>data?.data\<close> is absent and throws a \<open>TypeError\<close> when it has no
  first row. \<open>embed\<close> reads the cache and never writes it.
  \<^verbatim>\<open>
    if (!this.getSetting("OPENAI_API_KEY"))
      return await this.llamaService.getEmbeddingResponse(input);
    // Check if we already have the embedding in the lore
    const cachedEmbedding = await this.retrieveCachedEmbedding(input);
    if (cachedEmbedding) return cachedEmbedding;
    try {
      const response = await fetch(`${this.serverUrl}/embeddings`, requestOptions);
      if (!response.ok) throw new Error("OpenAI API Error: " + ...);
      const data = await response.json();
      return data?.data?.[0].embedding;
    } catch (e) { console.error(e); throw e; }
  \<close>
\<close>

record 'v embed_env =
  openai_api_key :: bool
  getEmbeddingResponse :: "string \<Rightarrow> 'v option"
  getCachedEmbeddings :: "string \<Rightarrow> 'v option list"

definition embed ::
  "'v embed_env \<Rightarrow> (nat \<Rightarrow> string \<Rightarrow> 'v option list fetch_result) \<Rightarrow> string \<Rightarrow> nat
     \<Rightarrow> (error + 'v option) \<times> nat" where
  "embed env fetch input sent =
     (if \<not> openai_api_key env then (Inr (getEmbeddingResponse env input), sent)
      else (case retrieveCachedEmbedding (getCachedEmbeddings env) input of
              Some cachedEmbedding \<Rightarrow> (Inr (Some cachedEmbedding), sent)
            | None \<Rightarrow>
                (case fetch sent input of
                   FetchRejects \<Rightarrow> (Inl NetworkError, Suc sent)
                 | Response ok body \<Rightarrow>
                     if \<not> ok then (Inl ApiError, Suc sent)
                     else (case body of
                             BadJson \<Rightarrow> (Inl NetworkError, Suc sent)
                           | Body None \<Rightarrow> (Inr None, Suc sent)
                           | Body (Some []) \<Rightarrow> (Inl TypeError, Suc sent)
                           | Body (Some (row # _)) \<Rightarrow> (Inr row, Suc sent)))))"

text \<open>Two calls of \<open>embed\<close> in a row on the same input: both results and the requests sent.\<close>

definition embed_twice ::
  "'v embed_env \<Rightarrow> (nat \<Rightarrow> string \<Rightarrow> 'v option list fetch_result) \<Rightarrow> string
     \<Rightarrow> (error + 'v option) \<times> (error + 'v option) \<times> nat" where
  "embed_twice env fetch input =
     (let (first, sent1) = embed env fetch input 0;
          (second, sent2) = embed env fetch input sent1
      in (first, second, sent2))"

section \<open>State composer\<close>

text \<open>
  Objects that the composer writes to have an identity: an attachment (\<open>Media\<close>, with an
  id and a text) and an array of messages are reached through a reference into a heap,
  so that a write is seen through every reference to the object. A memory is read only;
  it is a value, with the fields of \<open>content\<close> the composer reads laid flat, and its
  attachment list, when present, holds references to attachment objects. \<open>createdAt\<close> may
  be \<open>undefined\<close> or \<open>null\<close>; otherwise it is a time in milliseconds, a whole number far
  below \<open>2^53\<close>, on which the arithmetic of doubles is exact. The embedding is passed
  on and never computed with, so its type is a parameter. (\<open>id\<close> and \<open>text\<close> are taken
  names, hence the prefixes.)
\<close>

type_synonym ref = nat

datatype js_time = Undefined | Null | Time int


record 'v memory =
  memory_id :: string
  createdAt :: js_time
  embedding :: "'v option"
  attachments :: "ref list option"


text \<open>
  The facts read by \<open>composeState\<close>. The fact store is two parameters: \<open>getMemories\<close>,
  called with \<open>count\<close>, and \<open>searchMemoriesByEmbedding\<close>, called with the query embedding
  and \<open>count\<close>. The run records whether a search was issued, and with what query.
  \<^verbatim>\<open>
    const recentFactsCount = Math.ceil(this.getConversationLength() / 2);
    const relevantFactsCount = Math.ceil(this.getConversationLength() / 2);
    ... recentFactsData = this.factManager.getMemories({ roomId, count: recentFactsCount })
    let relevantFactsData: Memory[] = [];
    if (recentFactsData.length > recentFactsCount) {
      relevantFactsData = (
        await this.factManager.searchMemoriesByEmbedding(
          recentFactsData[0].embedding!, { roomId, count: relevantFactsCount })
      ).filter((fact) => !recentFactsData.find((recentFact) => recentFact.id === fact.id));
    }
  \<close>
\<close>

definition ceil_half :: "int \<Rightarrow> int" where
  "ceil_half n = - ((- n) div 2)"

record 'v facts_read =
  recentFactsData :: "'v memory list"
  searched :: "('v option \<times> int) option"
  relevantFactsData :: "'v memory list"

definition composeState_facts ::
  "int \<Rightarrow> (int \<Rightarrow> 'v memory list) \<Rightarrow> ('v option \<Rightarrow> int \<Rightarrow> 'v memory list)
     \<Rightarrow> error + 'v facts_read" where
  "composeState_facts conversationLength getMemories searchMemoriesByEmbedding =
     (let recentFactsCount = ceil_half conversationLength;
          relevantFactsCount = ceil_half conversationLength;
          recentFacts = getMemories recentFactsCount
      in if int (length recentFacts) > recentFactsCount
         then (case recentFacts of
                 [] \<Rightarrow> Inl TypeError
               | newest # _ \<Rightarrow>
                   Inr \<lparr> recentFactsData = recentFacts,
                         searched = Some (embedding newest, relevantFactsCount),
                         relevantFactsData =
                           filter (\<lambda>fact. find (\<lambda>recentFact. memory_id recentFact = memory_id fact)
                                             recentFacts = None)
                             (searchMemoriesByEmbedding (embedding newest) relevantFactsCount) \<rparr>)
         else Inr \<lparr> recentFactsData = recentFacts, searched = None, relevantFactsData = [] \<rparr>)"









text \<open>
  The merge that ends \<open>composeState\<close>. A state is a map from field names to values. The
  values computed for the fields of the \<open>initialState\<close> literal are a parameter, and so
  are those of \<open>actionState\<close>, which are computed from \<open>initialState\<close> (\<open>validate\<close> and the
  providers receive it).
  \<^verbatim>\<open>
    const initialState = { agentId: ..., agentName, bio, lore, ..., attachments: ...,
                           ...additionalKeys };
    ...
    const actionState = { actionNames: ..., actions: ..., actionExamples: ...,
                          evaluatorsData, evaluators: ..., evaluatorNames: ...,
                          evaluatorExamples: ..., providers: ... };
    return { ...initialState, ...actionState } as State;
  \<close>
\<close>

definition initialState_fields :: "string list" where
  "initialState_fields =
     [''agentId'', ''agentName'', ''bio'', ''lore'', ''adjective'',
      ''recentMessageInteractions'', ''recentPostInteractions'', ''recentInteractionsData'',
      ''topic'', ''topics'', ''characterPostExamples'', ''characterMessageExamples'',
      ''messageDirections'', ''postDirections'', ''senderName'', ''actors'', ''actorsData'',
      ''roomId'', ''goals'', ''goalsData'', ''recentMessages'', ''recentPosts'',
      ''recentMessagesData'', ''recentFacts'', ''recentFactsData'', ''relevantFacts'',
      ''relevantFactsData'', ''attachments'']"

definition actionState_fields :: "string list" where
  "actionState_fields =
     [''actionNames'', ''actions'', ''actionExamples'', ''evaluatorsData'', ''evaluators'',
      ''evaluatorNames'', ''evaluatorExamples'', ''providers'']"

definition initialState :: "(string \<Rightarrow> 'a) \<Rightarrow> (string \<rightharpoonup> 'a) \<Rightarrow> (string \<rightharpoonup> 'a)" where
  "initialState computed additionalKeys =
     map_of (map (\<lambda>field. (field, computed field)) initialState_fields) ++ additionalKeys"

definition actionState :: "((string \<rightharpoonup> 'a) \<Rightarrow> string \<Rightarrow> 'a) \<Rightarrow> (string \<rightharpoonup> 'a) \<Rightarrow> (string \<rightharpoonup> 'a)" where
  "actionState catalog state =
     map_of (map (\<lambda>field. (field, catalog state field)) actionState_fields)"

definition composeState_merge ::
  "(string \<Rightarrow> 'a) \<Rightarrow> ((string \<rightharpoonup> 'a) \<Rightarrow> string \<Rightarrow> 'a) \<Rightarrow> (string \<rightharpoonup> 'a) \<Rightarrow> (string \<rightharpoonup> 'a)" where
  "composeState_merge computed catalog additionalKeys =
     initialState computed additionalKeys
       ++ actionState catalog (initialState computed additionalKeys)"

text \<open>
  Facts and messages for evaluating the composer on explicit inputs, and a heap in which
  the array at reference 0 lists three messages, newest first: \<open>m3\<close> without attachment,
  \<open>m2\<close> with the attachment objects 1 and 2, and \<open>m1\<close>, two hours older, with the
  attachment object 1, the same object as on \<open>m2\<close>; a second array, at reference 3,
  lists \<open>m1\<close> alone.
\<close>

definition stored_fact :: "string \<Rightarrow> int \<Rightarrow> int list memory" where
  "stored_fact ident t =
     \<lparr> memory_id = ident, createdAt = Time t, embedding = Some [t], attachments = None \<rparr>"




section \<open>Properties of the tokenizer adapter\<close>

lemma js_slice_from_within:
  "0 \<le> k \<Longrightarrow> k \<le> int (length xs) \<Longrightarrow> js_slice_from xs k = drop (nat k) xs"
  by (simp add: js_slice_from_def js_index_def)

lemma rev_drop_rev: "rev (drop n (rev xs)) = take (length xs - n) xs"
  by (simp add: rev_drop)

text \<open>What \<open>trimTokens\<close> keeps above the budget: the leading tokens, all but \<open>maxTokens\<close> of them.\<close>

lemma trimTokens_over_budget:
  assumes "encoding_for_model model = Some encoding"
    and "0 \<le> maxTokens" and "maxTokens < int (length (encode encoding context))"
  shows "trimTokens encoding_for_model context maxTokens model =
           Inr (decode encoding
                 (take (length (encode encoding context) - nat maxTokens) (encode encoding context)))"
  using assms
  by (simp add: trimTokens_def Let_def js_slice_from_within rev_drop_rev)

lemma concat_word_tokens: "concat (word_tokens cur s) = cur @ s"
  by (induction s arbitrary: cur) auto

lemma word_encoding_roundtrip: "decode word_encoding (encode word_encoding s) = s"
  by (simp add: word_encoding_def concat_word_tokens)

text \<open>
  Claim C10. For every model that has an encoding, every budget \<open>maxTokens\<close> and every
  text whose token count under that encoding is at most \<open>maxTokens\<close>, \<open>trimTokens\<close>
  returns the text it was given, unchanged.
\<close>

theorem trimTokens_identity_within_budget:
  assumes "encoding_for_model model = Some encoding"
    and "int (length (encode encoding context)) \<le> maxTokens"
  shows "trimTokens encoding_for_model context maxTokens model = Inr context"
  using assms by (simp add: trimTokens_def Let_def)

theorem trimTokens_identity_within_budget_witness:
  "word_tiktoken ''gpt-4o-mini'' = Some word_encoding
   \<and> int (length (encode word_encoding ''one two three'')) \<le> 3
   \<and> trimTokens word_tiktoken ''one two three'' 3 ''gpt-4o-mini'' = Inr ''one two three''"
proof -
  have m: "word_tiktoken ''gpt-4o-mini'' = Some word_encoding"
    by (simp add: word_tiktoken_def)
  have n: "int (length (encode word_encoding ''one two three'')) \<le> 3"
    by (simp add: word_encoding_def)
  show ?thesis
    using m n
      trimTokens_identity_within_budget
        [of word_tiktoken "''gpt-4o-mini''" word_encoding "''one two three''" 3]
    by simp
qed

text \<open>
  Claim C1, evaluated. The text \<open>one two three\<close> has the three tokens \<open>one\<close>, \<open>\<^verbatim>\<open> two\<close>\<close>,
  \<open>\<^verbatim>\<open> three\<close>\<close>. With budget 1, \<open>trimTokens\<close> returns \<open>one two\<close>: two tokens, more than the
  budget, and the leading ones, where the last token \<open>\<^verbatim>\<open> three\<close>\<close> is the one to keep.
\<close>

theorem trimTokens_keeps_leading_tokens:
  "encode word_encoding ''one two three'' = [''one'', '' two'', '' three'']
   \<and> trimTokens word_tiktoken ''one two three'' 1 ''gpt-4o-mini'' = Inr ''one two''
   \<and> encode word_encoding ''one two'' = [''one'', '' two'']
   \<and> \<not> length (encode word_encoding ''one two'') \<le> 1
   \<and> encode word_encoding ''one two'' \<noteq> ['' three'']"
  by (simp add: trimTokens_def word_tiktoken_def word_encoding_def Let_def
      js_slice_from_def js_index_def)

subsection \<open>Chunking\<close>

text \<open>A call with a chunk size of zero or less on a text with at least one token never returns.\<close>

lemma splitChunks_loop_returns_only_if:
  assumes "splitChunks_loop encoding content tokens chunkSize bleed i chunks = Some r"
  shows "\<not> (chunkSize \<le> 0 \<and> i < int (length tokens))"
proof (rule splitChunks_loop.raw_induct
    [where P = "\<lambda>encoding content tokens chunkSize bleed i chunks y.
                  \<not> (chunkSize \<le> 0 \<and> i < int (length tokens))", OF _ assms])
  fix loop :: "'a encoding \<Rightarrow> string \<Rightarrow> 'a list \<Rightarrow> int \<Rightarrow> int \<Rightarrow> int \<Rightarrow> string list
                 \<Rightarrow> string list option"
  fix encoding content tokens chunkSize bleed i chunks y
  assume IH: "\<And>encoding content tokens chunkSize bleed i chunks y.
        loop encoding content tokens chunkSize bleed i chunks = Some y \<Longrightarrow>
        \<not> (chunkSize \<le> 0 \<and> i < int (length tokens))"
    and step: "(if i < int (length tokens)
      then let chunk = js_slice tokens i (i + chunkSize);
               decodedChunk = decode encoding chunk;
               startBleed = if 0 < i then js_slice content (i - bleed) i else [];
               endBleed = if i + chunkSize < int (length tokens)
                 then js_slice content (i + chunkSize) (i + chunkSize + bleed) else []
           in loop encoding content tokens chunkSize bleed (i + chunkSize)
               (chunks @ [startBleed @ decodedChunk @ endBleed])
      else Some chunks) = Some y"
  show "\<not> (chunkSize \<le> 0 \<and> i < int (length tokens))"
  proof
    assume c: "chunkSize \<le> 0 \<and> i < int (length tokens)"
    with step obtain ch
      where "loop encoding content tokens chunkSize bleed (i + chunkSize) ch = Some y"
      by (simp add: Let_def)
    from IH [OF this] c show False by simp
  qed
qed

lemma splitChunks_loop_diverges:
  "chunkSize \<le> 0 \<Longrightarrow> i < int (length tokens) \<Longrightarrow>
   splitChunks_loop encoding content tokens chunkSize bleed i chunks = None"
  using splitChunks_loop_returns_only_if [of encoding content tokens chunkSize bleed i chunks]
  by (cases "splitChunks_loop encoding content tokens chunkSize bleed i chunks") auto

text \<open>With a positive chunk size the loop returns, one chunk per window of tokens.\<close>

lemma splitChunks_loop_returns:
  assumes "0 < chunkSize"
  shows "\<exists>r. splitChunks_loop encoding content tokens chunkSize bleed i chunks = Some r"
proof (induction "nat (int (length tokens) - i)" arbitrary: i chunks rule: less_induct)
  case less
  show ?case
  proof (cases "i < int (length tokens)")
    case False
    then show ?thesis by (simp add: splitChunks_loop.simps)
  next
    case True
    with assms have "nat (int (length tokens) - (i + chunkSize)) < nat (int (length tokens) - i)"
      by simp
    from less [OF this] True show ?thesis
      by (subst splitChunks_loop.simps) (simp add: Let_def)
  qed
qed

text \<open>
  Claim C6, evaluated. \<open>hello world again\<close> has the tokens \<open>hello\<close>, \<open>\<^verbatim>\<open> world\<close>\<close>,
  \<open>\<^verbatim>\<open> again\<close>\<close>. With one token per chunk and a bleed of 2 the chunks come out as
  \<open>helloel\<close>, \<open>\<^verbatim>\<open> worldll\<close>\<close> and \<open>he again\<close>: the padding is read from \<open>content\<close> at the
  token index (characters 1 to 3 after the first chunk), where the characters next to
  the chunk in the text are \<open>\<^verbatim>\<open> w\<close>\<close> after \<open>hello\<close>, \<open>lo\<close> before and \<open>\<^verbatim>\<open> a\<close>\<close> after
  \<open>\<^verbatim>\<open> world\<close>\<close>, and \<open>ld\<close> before \<open>\<^verbatim>\<open> again\<close>\<close>.
\<close>

theorem splitChunks_bleed_at_token_index:
  "encode word_encoding ''hello world again'' = [''hello'', '' world'', '' again'']
   \<and> splitChunks word_tiktoken ''hello world again'' 1 2 ''gpt-4o-mini''
       = Some (Inr [''helloel'', '' worldll'', ''he again''])"
  by (simp add: splitChunks_def word_tiktoken_def word_encoding_def splitChunks_loop.simps
      js_slice_def js_index_def Let_def)

section \<open>Properties of the completion client\<close>

lemma attempt_succeeds_iff:
  "attempt r = Inr content \<longleftrightarrow> r = Response True (Body (Some content)) \<and> content \<noteq> []"
  by (cases r) (auto split: http_body.splits option.splits)

lemma completion_loop_requests:
  "requests (completion_loop fetch n retryLength sent delays) \<le> sent + n"
proof (induction n arbitrary: retryLength sent delays)
  case 0
  show ?case by simp
next
  case (Suc n)
  show ?case
  proof (cases "attempt (fetch sent)")
    case (Inl err)
    with Suc [of "retryLength * 2" "Suc sent" "delays @ [retryLength * 2]"] show ?thesis by simp
  next
    case (Inr content)
    then show ?thesis by simp
  qed
qed

lemma completion_loop_exhausted:
  "(\<And>j. j < n \<Longrightarrow> isl (attempt (fetch (sent + j)))) \<Longrightarrow>
   completion_loop fetch n retryLength sent delays =
     \<lparr> outcome = Inl CompletionFailed, requests = sent + n,
       waits = delays @ map (\<lambda>j. retryLength * 2 * 2 ^ j) [0..<n] \<rparr>"
proof (induction n arbitrary: retryLength sent delays)
  case 0
  show ?case by simp
next
  case (Suc n)
  from Suc.prems [of 0] obtain err where e: "attempt (fetch sent) = Inl err"
    by (cases "attempt (fetch sent)") auto
  have "\<And>j. j < n \<Longrightarrow> isl (attempt (fetch (Suc sent + j)))"
    using Suc.prems [of "Suc _"] by simp
  from Suc.IH [OF this, of "retryLength * 2" "delays @ [retryLength * 2]"] e
  show ?case
    by (simp add: upt_conv_Cons map_Suc_upt [symmetric] del: upt_Suc)
qed

lemma completion_loop_success:
  "k < n \<Longrightarrow> (\<And>j. j < k \<Longrightarrow> isl (attempt (fetch (sent + j)))) \<Longrightarrow>
   attempt (fetch (sent + k)) = Inr content \<Longrightarrow>
   completion_loop fetch n retryLength sent delays =
     \<lparr> outcome = Inr content, requests = Suc (sent + k),
       waits = delays @ map (\<lambda>j. retryLength * 2 * 2 ^ j) [0..<k] \<rparr>"
proof (induction n arbitrary: k retryLength sent delays)
  case 0
  then show ?case by simp
next
  case (Suc n)
  show ?case
  proof (cases k)
    case 0
    with Suc.prems show ?thesis by simp
  next
    case (Suc k')
    from Suc.prems(2) [of 0] Suc obtain err where e: "attempt (fetch sent) = Inl err"
      by (cases "attempt (fetch sent)") auto
    have f: "\<And>j. j < k' \<Longrightarrow> isl (attempt (fetch (Suc sent + j)))"
      using Suc.prems(2) [of "Suc _"] Suc by simp
    have s: "attempt (fetch (Suc sent + k')) = Inr content"
      using Suc.prems(3) Suc by simp
    have "k' < n" using Suc.prems(1) Suc by simp
    from Suc.IH [OF this f s, of "retryLength * 2" "delays @ [retryLength * 2]"] e Suc
    show ?thesis
      by (simp add: upt_conv_Cons map_Suc_upt [symmetric] del: upt_Suc)
  qed
qed

text \<open>
  Claim C7. \<open>completion\<close> sends at most 5 requests. A request fails when \<open>fetch\<close> rejects,
  when the response is not \<open>ok\<close>, when its body does not parse, and when its content is
  missing or empty; every failure is followed by a wait, the first of 2000 ms (the
  initial 1000 ms is doubled before it is used) and each next one twice the one before.
  When all 5 requests fail the call throws; when request \<open>k\<close> is the first to bring an
  \<open>ok\<close> response with a non-empty content, the call returns that content at once,
  after \<open>k + 1\<close> requests and \<open>k\<close> waits.
\<close>

theorem completion_bounded_retry:
  fixes fetch :: "nat \<Rightarrow> string fetch_result"
  defines "failed \<equiv> \<lambda>r. r = FetchRejects \<or> (\<exists>body. r = Response False body)
                         \<or> r = Response True BadJson \<or> r = Response True (Body None)
                         \<or> r = Response True (Body (Some []))"
  shows "requests (completion fetch) \<le> 5
   \<and> ((\<forall>j<5. failed (fetch j)) \<longrightarrow>
        completion fetch =
          \<lparr> outcome = Inl CompletionFailed, requests = 5,
            waits = [2000, 4000, 8000, 16000, 32000] \<rparr>)
   \<and> (k < 5 \<and> (\<forall>j<k. failed (fetch j))
        \<and> fetch k = Response True (Body (Some content)) \<and> content \<noteq> [] \<longrightarrow>
        completion fetch =
          \<lparr> outcome = Inr content, requests = Suc k,
            waits = map (\<lambda>j. 2000 * 2 ^ j) [0..<k] \<rparr>)"
proof (intro conjI impI)
  have failed: "isl (attempt r)" if "failed r" for r
    using that unfolding failed_def by auto
  show "requests (completion fetch) \<le> 5"
    using completion_loop_requests [of fetch 5 1000 0 "[]"] by (simp add: completion_def)
  {
    assume "\<forall>j<5. failed (fetch j)"
    then have "\<And>j. j < 5 \<Longrightarrow> isl (attempt (fetch (0 + j)))" by (simp add: failed)
    from completion_loop_exhausted [of 5 fetch 0 1000 "[]", OF this]
    show "completion fetch =
            \<lparr> outcome = Inl CompletionFailed, requests = 5,
              waits = [2000, 4000, 8000, 16000, 32000] \<rparr>"
      by (simp add: completion_def upt_conv_Cons del: upt_Suc)
  }
  {
    assume a: "k < 5 \<and> (\<forall>j<k. failed (fetch j))
        \<and> fetch k = Response True (Body (Some content)) \<and> content \<noteq> []"
    then have f: "\<And>j. j < k \<Longrightarrow> isl (attempt (fetch (0 + j)))" by (simp add: failed)
    from a have s: "attempt (fetch (0 + k)) = Inr content" by simp
    from a have "k < 5" by simp
    from completion_loop_success [of k 5 fetch 0 content 1000 "[]", OF this f s]
    show "completion fetch =
            \<lparr> outcome = Inr content, requests = Suc k,
              waits = map (\<lambda>j. 2000 * 2 ^ j) [0..<k] \<rparr>"
      by (simp add: completion_def)
  }
qed

theorem completion_bounded_retry_witness:
  "completion failing_endpoint =
     \<lparr> outcome = Inl CompletionFailed, requests = 5,
       waits = [2000, 4000, 8000, 16000, 32000] \<rparr>
   \<and> completion recovering_endpoint =
     \<lparr> outcome = Inr ''ok'', requests = 3, waits = [2000, 4000] \<rparr>"
proof
  show "completion failing_endpoint =
     \<lparr> outcome = Inl CompletionFailed, requests = 5,
       waits = [2000, 4000, 8000, 16000, 32000] \<rparr>"
    using completion_bounded_retry
      [of failing_endpoint 0 "''ok''", THEN conjunct2, THEN conjunct1]
    by (simp add: failing_endpoint_def)
next
  show "completion recovering_endpoint =
     \<lparr> outcome = Inr ''ok'', requests = 3, waits = [2000, 4000] \<rparr>"
    using completion_bounded_retry
      [of recovering_endpoint 2 "''ok''", THEN conjunct2, THEN conjunct2]
    by (simp add: recovering_endpoint_def less_Suc_eq numeral_2_eq_2 upt_conv_Cons
        del: upt_Suc)
qed

section \<open>Properties of the capability dispatcher\<close>













text \<open>
  What \<open>evaluate\<close> offers and what it executes. The prompt holds the evaluators that
  have a handler and pass \<open>validate\<close>; the handlers called are those of every registered
  evaluator that has one and is named in the parsed answer.
\<close>

lemma evaluate_offers_validated:
  "offered (evaluate evaluators completion_parsed message state) = Some evaluatorsData \<Longrightarrow>
   evaluatorsData =
     filter (\<lambda>evaluator. handler evaluator \<noteq> None \<and> validate evaluator message state) evaluators"
  by (auto simp: evaluate_def Let_def split: if_splits sum.splits)

lemma evaluate_executes_named:
  "returned (evaluate evaluators completion_parsed message state) = Inr (Some names) \<Longrightarrow>
   offered (evaluate evaluators completion_parsed message state) \<noteq> None \<Longrightarrow>
   executed (evaluate evaluators completion_parsed message state) =
     filter (\<lambda>evaluator. handler evaluator \<noteq> None \<and> name evaluator \<in> set names) evaluators"
  by (auto simp: evaluate_def Let_def conj_commute split: if_splits sum.splits)

text \<open>
  Claim C2, evaluated. Two evaluators are registered: \<open>GET_FACTS\<close>, which passes
  \<open>validate\<close>, and \<open>UPDATE_GOAL\<close>, which fails it. Only \<open>GET_FACTS\<close> is offered to the
  model. When the model's answer names both, the handlers of both are called:
  \<open>UPDATE_GOAL\<close> runs although it failed validation.
\<close>

theorem evaluate_runs_unvalidated_evaluator:
  "validate goal_evaluator () () = False
   \<and> map_option (map name)
        (offered (evaluate [fact_evaluator, goal_evaluator]
                   (\<lambda>prompted. Inr (Some [''GET_FACTS'', ''UPDATE_GOAL''])) () ()))
       = Some [''GET_FACTS'']
   \<and> map name
        (executed (evaluate [fact_evaluator, goal_evaluator]
                    (\<lambda>prompted. Inr (Some [''GET_FACTS'', ''UPDATE_GOAL''])) () ()))
       = [''GET_FACTS'', ''UPDATE_GOAL'']"
  by (simp add: evaluate_def fact_evaluator_def goal_evaluator_def Let_def)

section \<open>Properties of the embedding path\<close>

text \<open>
  Claim C5, as the code has it. With \<open>OPENAI_API_KEY\<close> set, \<open>embed\<close> first asks the cache
  lookup; when its first row carries an embedding, that vector is returned and no
  request is sent, so two calls in a row return the same vector with no remote call.
  When the lookup returns nothing, every call sends one request: \<open>embed\<close> stores nothing,
  and two calls in a row send two requests.
\<close>

theorem embed_reuses_cached_vector:
  "(openai_api_key env \<and> getCachedEmbeddings env input = Some v # rows
      \<longrightarrow> embed_twice env fetch input = (Inr (Some v), Inr (Some v), 0))
   \<and> (openai_api_key env \<and> getCachedEmbeddings env input = []
      \<longrightarrow> snd (snd (embed_twice env fetch input)) = 2)"
  by (auto simp: embed_twice_def embed_def retrieveCachedEmbedding_def
      split: fetch_result.splits http_body.splits option.splits list.splits)

theorem embed_reuses_cached_vector_witness:
  "embed_twice
     \<lparr> openai_api_key = True, getEmbeddingResponse = (\<lambda>input. None),
       getCachedEmbeddings = (\<lambda>input. if input = ''hello'' then [Some [1, 2, 3 :: int]] else []) \<rparr>
     (\<lambda>n input. FetchRejects) ''hello''
     = (Inr (Some [1, 2, 3]), Inr (Some [1, 2, 3]), 0)
   \<and> snd (snd (embed_twice
     \<lparr> openai_api_key = True, getEmbeddingResponse = (\<lambda>input. None),
       getCachedEmbeddings = (\<lambda>input. if input = ''hello'' then [Some [1, 2, 3 :: int]] else []) \<rparr>
     (\<lambda>n input. FetchRejects) ''bye'')) = 2"
proof
  show "embed_twice
     \<lparr> openai_api_key = True, getEmbeddingResponse = (\<lambda>input. None),
       getCachedEmbeddings = (\<lambda>input. if input = ''hello'' then [Some [1, 2, 3 :: int]] else []) \<rparr>
     (\<lambda>n input. FetchRejects) ''hello''
     = (Inr (Some [1, 2, 3]), Inr (Some [1, 2, 3]), 0)"
    using embed_reuses_cached_vector
      [where env = "\<lparr> openai_api_key = True, getEmbeddingResponse = (\<lambda>input. None),
           getCachedEmbeddings =
             (\<lambda>input. if input = ''hello'' then [Some [1, 2, 3 :: int]] else []) \<rparr>"
         and input = "''hello''" and v = "[1, 2, 3]" and rows = "[]"
         and fetch = "\<lambda>n input. FetchRejects", THEN conjunct1]
    by simp
next
  show "snd (snd (embed_twice
     \<lparr> openai_api_key = True, getEmbeddingResponse = (\<lambda>input. None),
       getCachedEmbeddings = (\<lambda>input. if input = ''hello'' then [Some [1, 2, 3 :: int]] else []) \<rparr>
     (\<lambda>n input. FetchRejects) ''bye'')) = 2"
    using embed_reuses_cached_vector
      [where env = "\<lparr> openai_api_key = True, getEmbeddingResponse = (\<lambda>input. None),
           getCachedEmbeddings =
             (\<lambda>input. if input = ''hello'' then [Some [1, 2, 3 :: int]] else []) \<rparr>"
         and input = "''bye''" and fetch = "\<lambda>n input. FetchRejects", THEN conjunct2]
    by simp
qed

text \<open>
  Claim C5 as stated fails on a cache that holds no record for the input: the remote
  endpoint answers both calls with the same vector, and two requests are sent.
\<close>

theorem embed_twice_sends_two_requests:
  "embed_twice
     \<lparr> openai_api_key = True, getEmbeddingResponse = (\<lambda>input. None),
       getCachedEmbeddings = (\<lambda>input. []) \<rparr>
     (\<lambda>n input. Response True (Body (Some [Some [1, 2, 3 :: int]]))) ''hello''
     = (Inr (Some [1, 2, 3]), Inr (Some [1, 2, 3]), 2)
   \<and> \<not> (2 :: nat) \<le> 1"
  by (simp add: embed_twice_def embed_def retrieveCachedEmbedding_def)

section \<open>Properties of the state composer\<close>

subsection \<open>Facts\<close>

text \<open>
  A fact store that returns no more than \<open>count\<close> facts is never searched: the test is
  \<open>recentFactsData.length > recentFactsCount\<close>, which a page of at most
  \<open>recentFactsCount\<close> facts cannot pass.
\<close>

lemma composeState_facts_never_searches:
  assumes "int (length (getMemories (ceil_half conversationLength))) \<le> ceil_half conversationLength"
  shows "composeState_facts conversationLength getMemories searchMemoriesByEmbedding =
           Inr \<lparr> recentFactsData = getMemories (ceil_half conversationLength),
                 searched = None, relevantFactsData = [] \<rparr>"
  using assms by (simp add: composeState_facts_def Let_def)

text \<open>
  Claim C3, evaluated. With \<open>conversationLength = 4\<close> the page size is 2. The store holds
  the facts \<open>f1\<close>, \<open>f2\<close>, \<open>f3\<close> (newest first) and returns the full page \<open>f1\<close>, \<open>f2\<close>; a
  search by the embedding of \<open>f1\<close> would return \<open>f1\<close> and \<open>f3\<close>, of which \<open>f3\<close> is not on
  the page. \<open>composeState\<close> issues no search and its relevant-facts list is empty.
\<close>

theorem composeState_full_page_not_searched:
  "ceil_half 4 = 2
   \<and> length (take (nat 2) [stored_fact ''f1'' 30, stored_fact ''f2'' 20, stored_fact ''f3'' 10]) = 2
   \<and> composeState_facts 4
        (\<lambda>count. take (nat count)
                   [stored_fact ''f1'' 30, stored_fact ''f2'' 20, stored_fact ''f3'' 10])
        (\<lambda>query count. take (nat count)
                   [stored_fact ''f1'' 30, stored_fact ''f3'' 10, stored_fact ''f2'' 20])
       = Inr \<lparr> recentFactsData = [stored_fact ''f1'' 30, stored_fact ''f2'' 20],
               searched = None, relevantFactsData = [] \<rparr>"
  by (simp add: composeState_facts_def ceil_half_def Let_def)

subsection \<open>The merged state\<close>

lemma actionState_field:
  "actionState catalog state field =
     (if field \<in> set actionState_fields then Some (catalog state field) else None)"
  by (simp add: actionState_def map_of_map_restrict restrict_map_def)

lemma initialState_additionalKeys:
  "additionalKeys field = Some v \<Longrightarrow> initialState computed additionalKeys field = Some v"
  by (simp add: initialState_def)

text \<open>
  Claim C4, as the code has it. Every key of \<open>additionalKeys\<close> is in the returned state.
  A key that is not one of the eight fields of \<open>actionState\<close> has the value the caller
  supplied, also when it is the name of a computed field of \<open>initialState\<close>. A key that
  is one of the eight (\<open>actionNames\<close>, \<open>actions\<close>, \<open>actionExamples\<close>, \<open>evaluatorsData\<close>,
  \<open>evaluators\<close>, \<open>evaluatorNames\<close>, \<open>evaluatorExamples\<close>, \<open>providers\<close>) has the value
  \<open>composeState\<close> computed: \<open>actionState\<close> is spread last.
\<close>

theorem composeState_additionalKeys:
  "additionalKeys field = Some v \<longrightarrow>
     composeState_merge computed catalog additionalKeys field =
       (if field \<in> set actionState_fields
        then Some (catalog (initialState computed additionalKeys) field)
        else Some v)"
  by (simp add: composeState_merge_def actionState_field initialState_additionalKeys map_add_def)

theorem composeState_additionalKeys_witness:
  "composeState_merge (\<lambda>field. ''computed'') (\<lambda>state field. ''catalog'')
     [''bio'' \<mapsto> ''mine'', ''timeline'' \<mapsto> ''tweets''] ''bio'' = Some ''mine''
   \<and> composeState_merge (\<lambda>field. ''computed'') (\<lambda>state field. ''catalog'')
     [''bio'' \<mapsto> ''mine'', ''timeline'' \<mapsto> ''tweets''] ''timeline'' = Some ''tweets''"
proof
  show "composeState_merge (\<lambda>field. ''computed'') (\<lambda>state field. ''catalog'')
     [''bio'' \<mapsto> ''mine'', ''timeline'' \<mapsto> ''tweets''] ''bio'' = Some ''mine''"
    using composeState_additionalKeys
      [of "[''bio'' \<mapsto> ''mine'', ''timeline'' \<mapsto> ''tweets'']" "''bio''" "''mine''"
          "\<lambda>field. ''computed''" "\<lambda>state field. ''catalog''"]
    by (simp add: actionState_fields_def)
next
  show "composeState_merge (\<lambda>field. ''computed'') (\<lambda>state field. ''catalog'')
     [''bio'' \<mapsto> ''mine'', ''timeline'' \<mapsto> ''tweets''] ''timeline'' = Some ''tweets''"
    using composeState_additionalKeys
      [of "[''bio'' \<mapsto> ''mine'', ''timeline'' \<mapsto> ''tweets'']" "''timeline''" "''tweets''"
          "\<lambda>field. ''computed''" "\<lambda>state field. ''catalog''"]
    by (simp add: actionState_fields_def)
qed

text \<open>
  Claim C4 as stated fails on a catalog field: a caller who supplies \<open>actions\<close> gets
  back the computed catalog, not the supplied value.
\<close>

theorem composeState_catalog_overrides_additionalKeys:
  "[''actions'' \<mapsto> ''mine''] ''actions'' = Some ''mine''
   \<and> composeState_merge (\<lambda>field. ''computed'') (\<lambda>state field. ''catalog'')
        [''actions'' \<mapsto> ''mine''] ''actions'' = Some ''catalog''
   \<and> ''catalog'' \<noteq> ''mine''"
  by (simp add: composeState_merge_def initialState_def actionState_def actionState_fields_def)

subsection \<open>Attachments\<close>







end
